theory Spec2Isabelle
  imports Main
begin

section \<open>JavaScript values and failures\<close>

text \<open>
  The handlers of \<^verbatim>\<open>server.ts\<close> and the class \<^verbatim>\<open>Config\<close> are TypeScript that runs on
  Node. Three things of JavaScript are written out, because HOL has none of them:
  a read of an array outside its bounds yields \<^verbatim>\<open>undefined\<close> and does not raise;
  arithmetic on \<^verbatim>\<open>undefined\<close> yields \<^verbatim>\<open>NaN\<close>; a call with an argument of the wrong type
  (here: \<^verbatim>\<open>path.join\<close> or \<^verbatim>\<open>path.basename\<close> on \<^verbatim>\<open>undefined\<close>) throws a \<^verbatim>\<open>TypeError\<close>.
\<close>

datatype js_error = TypeError | Error string

text \<open>What an expression of static type \<open>'a\<close> can evaluate to at run time.\<close>

datatype 'a js_value = Undefined | Defined 'a

datatype js_number = NaN | Num int

text \<open>\<^verbatim>\<open>ToNumber\<close> on an optional integral number: \<^verbatim>\<open>undefined\<close> becomes \<^verbatim>\<open>NaN\<close>.\<close>

fun to_number :: "int option \<Rightarrow> js_number" where
  "to_number None = NaN"
| "to_number (Some n) = Num n"

text \<open>The binary \<^verbatim>\<open>-\<close> with an integral right operand.\<close>

fun js_minus :: "js_number \<Rightarrow> int \<Rightarrow> js_number" where
  "js_minus NaN k = NaN"
| "js_minus (Num n) k = Num (n - k)"

text \<open>
  \<^verbatim>\<open>xs[k]\<close> on an array: the element when \<open>k\<close> is an index of the array, and
  \<^verbatim>\<open>undefined\<close> for every other key (a negative number, a number from the length on,
  \<^verbatim>\<open>NaN\<close>). Nothing is raised.
\<close>

fun array_get :: "'a list \<Rightarrow> js_number \<Rightarrow> 'a js_value" where
  "array_get xs NaN = Undefined"
| "array_get xs (Num k) =
     (if 0 \<le> k \<and> k < int (length xs) then Defined (xs ! nat k) else Undefined)"

text \<open>Whether the read \<^verbatim>\<open>xs[k]\<close> stays inside the array.\<close>

fun in_bounds :: "'a list \<Rightarrow> js_number \<Rightarrow> bool" where
  "in_bounds xs NaN = False"
| "in_bounds xs (Num k) = (0 \<le> k \<and> k < int (length xs))"


section \<open>The server: \<^verbatim>\<open>server.ts\<close>\<close>

subsection \<open>Data\<close>

text \<open>
  A \<^verbatim>\<open>CompletionItem\<close> of the protocol: the label and three of its optional fields.
  \<open>data\<close> is the field the server reads back on resolve (\<^verbatim>\<open>data?: any\<close> in the protocol);
  the embedding covers an absent \<open>data\<close> and an integral one, which is what the
  identifiers of the list are.
\<close>

record completion_item =
  label :: string
  kind :: "nat option"
  detail :: "string option"
  data :: "int option"

text \<open>A text document as the synchronisation library hands it to the handlers.\<close>

record document =
  uri :: string
  languageId :: string
  version :: int
  content :: string

datatype TextDocumentSyncKind = SyncNone | Full | Incremental

text \<open>
  \<^verbatim>\<open>new vsclang.TextDocuments()\<close>: the library's manager of the open documents.
  \<open>all_documents\<close> is what \<^verbatim>\<open>documents.all()\<close> returns.
\<close>

record text_documents =
  all_documents :: "document list"

text \<open>
  Modelled from the spec: \<^verbatim>\<open>documents.syncKind\<close> is a getter of the library
  \<^verbatim>\<open>vscode-languageserver\<close>, which is not among the sources. The manager built without
  arguments synchronises whole documents, and by the spec the server declares
  full-document sync: the getter is \<^verbatim>\<open>TextDocumentSyncKind.Full\<close> for every manager.
\<close>

definition syncKind :: "text_documents \<Rightarrow> TextDocumentSyncKind" where
  "syncKind documents = Full"

record completion_options =
  resolveProvider :: "bool option"

text \<open>The two capabilities the server sets; both are optional in the protocol.\<close>

record server_capabilities =
  textDocumentSync :: "TextDocumentSyncKind option"
  completionProvider :: "completion_options option"

record initialize_result =
  capabilities :: server_capabilities

text \<open>The parameter of \<^verbatim>\<open>onDidChangeContent\<close> and of \<^verbatim>\<open>onDidChangeConfiguration\<close>.\<close>

record text_document_change =
  changed_document :: document

record 's configuration_change =
  settings :: 's

subsection \<open>Calls into the rest of the server\<close>

text \<open>
  \<^verbatim>\<open>preprocess\<close> (module \<^verbatim>\<open>./linter\<close>) and the class of the server's \<^verbatim>\<open>conf\<close> (module
  \<^verbatim>\<open>./config\<close> beside \<^verbatim>\<open>server.ts\<close>) are not among the sources. That class is built by
  \<^verbatim>\<open>new Config('', '')\<close> and its \<^verbatim>\<open>onChange\<close> is given the settings; the class \<^verbatim>\<open>Config\<close> of
  the next section has a constructor without parameters, reads the editor's API and
  takes a change event, so it is another class of the same name. A handler's calls to
  the two modules are recorded, in the order they are made, with their arguments:
  \<^verbatim>\<open>preprocess(change.document)\<close> passes the document alone, while
  \<^verbatim>\<open>documents.all().forEach(preprocess)\<close> passes the document, its index and the array.
\<close>

datatype 's call =
    Conf_onChange 's
  | Preprocess document "(nat \<times> document list) option"

text \<open>The document a call preprocesses, if it is a call of \<^verbatim>\<open>preprocess\<close>.\<close>

fun preprocessed :: "'s call \<Rightarrow> document option" where
  "preprocessed (Conf_onChange s) = None"
| "preprocessed (Preprocess d extra) = Some d"

text \<open>
  Running a sequence of calls. What a call does is not known here, so whether it throws
  is a parameter \<open>raises\<close>. A call that throws ends the handler: the calls after it are
  not made. The result is the calls made and the error that ended them, if any.
\<close>

fun run_calls :: "('s call \<Rightarrow> js_error option) \<Rightarrow> 's call list \<Rightarrow> 's call list \<times> js_error option" where
  "run_calls raises [] = ([], None)"
| "run_calls raises (c # cs) =
     (case raises c of
        Some e \<Rightarrow> ([c], Some e)
      | None \<Rightarrow> (case run_calls raises cs of (made, r) \<Rightarrow> (c # made, r)))"

text \<open>\<^verbatim>\<open>xs.forEach(f)\<close> calls \<open>f\<close> on each element, in order, with its index and \<open>xs\<close>.\<close>

definition forEach :: "document list \<Rightarrow> 's call list" where
  "forEach xs = map (\<lambda>(i, d). Preprocess d (Some (i, xs))) (enumerate 0 xs)"

subsection \<open>State and handlers\<close>

text \<open>
  The state of the server between two messages: the document manager, and the calls made
  so far into the linter and the configuration.
\<close>

record 's server =
  documents :: text_documents
  invoked :: "'s call list"

text \<open>
  \<^verbatim>\<open>connection.onInitialize((params) => { return { capabilities: { textDocumentSync:
  documents.syncKind, completionProvider: { resolveProvider: true } } } })\<close>
\<close>

definition onInitialize :: "'s server \<Rightarrow> 'p \<Rightarrow> initialize_result" where
  "onInitialize srv params =
     \<lparr>capabilities =
        \<lparr>textDocumentSync = Some (syncKind (documents srv)),
         completionProvider = Some \<lparr>resolveProvider = Some True\<rparr>\<rparr>\<rparr>"

text \<open>
  A handler that calls into the rest of the server returns the state after it and the
  error that left it, if any.
\<close>

definition perform ::
  "('s call \<Rightarrow> js_error option) \<Rightarrow> 's call list \<Rightarrow> 's server \<Rightarrow> 's server \<times> js_error option" where
  "perform raises cs srv =
     (case run_calls raises cs of
        (made, r) \<Rightarrow> (srv\<lparr>invoked := invoked srv @ made\<rparr>, r))"

text \<open>\<^verbatim>\<open>documents.onDidChangeContent((change) => { preprocess(change.document) })\<close>\<close>

definition onDidChangeContent ::
  "('s call \<Rightarrow> js_error option) \<Rightarrow> text_document_change \<Rightarrow> 's server \<Rightarrow> 's server \<times> js_error option" where
  "onDidChangeContent raises change srv =
     perform raises [Preprocess (changed_document change) None] srv"

text \<open>
  \<^verbatim>\<open>connection.onDidChangeConfiguration((change) => { conf.onChange(change.settings as
  Config); documents.all().forEach(preprocess) })\<close>
\<close>

definition onDidChangeConfiguration ::
  "('s call \<Rightarrow> js_error option) \<Rightarrow> 's configuration_change \<Rightarrow> 's server \<Rightarrow> 's server \<times> js_error option" where
  "onDidChangeConfiguration raises change srv =
     perform raises
       (Conf_onChange (settings change) # forEach (all_documents (documents srv))) srv"

text \<open>
  \<^verbatim>\<open>connection.onCompletion((textDocumentPosition) => { return completions })\<close>.
  \<open>completions\<close> is the constant list of module \<^verbatim>\<open>./completionProvider\<close>, which is not
  among the sources: it is a parameter.
\<close>

definition onCompletion :: "completion_item list \<Rightarrow> 's server \<Rightarrow> 'p \<Rightarrow> completion_item list" where
  "onCompletion completions srv textDocumentPosition = completions"

text \<open>
  \<^verbatim>\<open>connection.onCompletionResolve((item) => { return completions[item.data - 1] })\<close>.
  The handler has no branch and no \<^verbatim>\<open>throw\<close>: its result is \<open>Inr\<close> of whatever the
  array read yields.
\<close>

definition resolve_index :: "completion_item \<Rightarrow> js_number" where
  "resolve_index item = js_minus (to_number (data item)) 1"

definition onCompletionResolve ::
  "completion_item list \<Rightarrow> 's server \<Rightarrow> completion_item \<Rightarrow> js_error + completion_item js_value" where
  "onCompletionResolve completions srv item = Inr (array_get completions (resolve_index item))"

text \<open>An item that carries the identifier \<open>i\<close> and nothing else of interest.\<close>

definition item_with_id :: "int \<Rightarrow> completion_item" where
  "item_with_id i = \<lparr>label = [], kind = None, detail = None, data = Some i\<rparr>"


section \<open>The configuration: class \<^verbatim>\<open>Config\<close>\<close>

subsection \<open>Node's \<^verbatim>\<open>path\<close> module\<close>

text \<open>
  \<^verbatim>\<open>path.basename\<close> and \<^verbatim>\<open>path.join\<close> belong to Node, not to the repository, and they
  differ between platforms (\<^verbatim>\<open>path.posix\<close>, \<^verbatim>\<open>path.win32\<close>). The constructor takes
  the module as a parameter, and the properties below hold for every such module.
\<close>

record path_module =
  basename :: "string \<Rightarrow> string"
  join :: "string list \<Rightarrow> string"

text \<open>
  \<^verbatim>\<open>path.posix\<close>, for the concrete inputs. A path is cut at each \<^verbatim>\<open>/\<close>; normalising drops
  empty and \<^verbatim>\<open>.\<close> segments and lets \<^verbatim>\<open>..\<close> remove the segment before it (a relative
  path keeps the \<^verbatim>\<open>..\<close> it cannot resolve, an absolute one drops them).
\<close>

fun split_path :: "string \<Rightarrow> string list" where
  "split_path [] = [[]]"
| "split_path (c # cs) =
     (if c = CHR ''/'' then [] # split_path cs
      else (case split_path cs of [] \<Rightarrow> [[c]] | s # ss \<Rightarrow> (c # s) # ss))"

fun join_segments :: "string list \<Rightarrow> string" where
  "join_segments [] = []"
| "join_segments [s] = s"
| "join_segments (s # t # ss) = s @ ''/'' @ join_segments (t # ss)"

fun normalize_segments :: "bool \<Rightarrow> string list \<Rightarrow> string list \<Rightarrow> string list" where
  "normalize_segments allowAboveRoot res [] = rev res"
| "normalize_segments allowAboveRoot res (s # ss) =
     (if s = [] \<or> s = ''.'' then normalize_segments allowAboveRoot res ss
      else if s = ''..'' then
        (if res \<noteq> [] \<and> hd res \<noteq> ''..'' then normalize_segments allowAboveRoot (tl res) ss
         else if allowAboveRoot then normalize_segments allowAboveRoot (''..'' # res) ss
         else normalize_segments allowAboveRoot res ss)
      else normalize_segments allowAboveRoot (s # res) ss)"

definition posix_normalize :: "string \<Rightarrow> string" where
  "posix_normalize p =
     (if p = [] then ''.''
      else
        (let isAbsolute = (hd p = CHR ''/'');
             trailingSeparator = (last p = CHR ''/'');
             body = join_segments (normalize_segments (\<not> isAbsolute) [] (split_path p))
         in if body = [] then
              (if isAbsolute then ''/'' else if trailingSeparator then ''./'' else ''.'')
            else (if isAbsolute then ''/'' else []) @ body
                   @ (if trailingSeparator then ''/'' else [])))"

text \<open>\<^verbatim>\<open>path.posix.join\<close>: the non-empty arguments, joined by \<^verbatim>\<open>/\<close> and normalised.\<close>

definition posix_join :: "string list \<Rightarrow> string" where
  "posix_join args =
     (let joined = filter (\<lambda>arg. arg \<noteq> []) args
      in if joined = [] then ''.'' else posix_normalize (join_segments joined))"

text \<open>
  \<^verbatim>\<open>path.posix.basename\<close> with one argument: trailing separators are skipped, and the
  result is what follows the last separator before them.
\<close>

definition posix_basename :: "string \<Rightarrow> string" where
  "posix_basename p =
     rev (takeWhile (\<lambda>c. c \<noteq> CHR ''/'') (dropWhile (\<lambda>c. c = CHR ''/'') (rev p)))"

definition posix :: path_module where
  "posix = \<lparr>basename = posix_basename, join = posix_join\<rparr>"

text \<open>
  A segment of a path that is already normal: not empty, not \<^verbatim>\<open>.\<close> or \<^verbatim>\<open>..\<close>, and free of
  separators. An absolute normal path of \<^verbatim>\<open>path.posix\<close> is \<open>CHR ''/'' # join_segments segs\<close>
  for such segments.
\<close>

definition plain_segment :: "string \<Rightarrow> bool" where
  "plain_segment s = (s \<noteq> [] \<and> s \<noteq> ''.'' \<and> s \<noteq> ''..'' \<and> CHR ''/'' \<notin> set s)"

subsection \<open>What the constructor reads\<close>

text \<open>
  The editor and the operating system at the moment of a call:
  \<open>configuration h section key\<close> is \<^verbatim>\<open>vscode.workspace.getConfiguration(section).get(key)\<close>
  (\<open>None\<close> for \<^verbatim>\<open>undefined\<close>), \<open>os_tmpdir\<close> is \<^verbatim>\<open>os.tmpdir()\<close>, \<open>os_platform\<close> is
  \<^verbatim>\<open>os.platform()\<close>, and \<open>workspace_name\<close> and \<open>workspace_rootPath\<close> are
  \<^verbatim>\<open>vscode.workspace.name\<close> and \<^verbatim>\<open>vscode.workspace.rootPath\<close>, both \<^verbatim>\<open>undefined\<close> when
  no folder is open.
\<close>

record host =
  configuration :: "string \<Rightarrow> string \<Rightarrow> string option"
  os_tmpdir :: string
  os_platform :: string
  workspace_name :: "string option"
  workspace_rootPath :: "string option"

text \<open>
  The six fields of the class. The type of the pattern is a parameter: the constant
  \<^verbatim>\<open>regLinuxOutput\<close> of module \<^verbatim>\<open>./linter/glslProvider\<close> is not among the sources.
\<close>

record 're config =
  minecraftPath :: "string option"
  glslangPath :: "string option"
  workDir :: string
  tmpdir :: string
  isWin :: bool
  outputMatch :: 're

subsection \<open>The constructor\<close>

text \<open>
  \<^verbatim>\<open>constructor()\<close>. The non-null assertions \<^verbatim>\<open>name!\<close> and \<^verbatim>\<open>rootPath!\<close> are erased by the
  compiler, so an \<^verbatim>\<open>undefined\<close> reaches \<^verbatim>\<open>path.join\<close> or \<^verbatim>\<open>path.basename\<close>, which throw a
  \<^verbatim>\<open>TypeError\<close> on an argument that is not a string. The second log line evaluates the
  same \<^verbatim>\<open>path.join\<close> as the assignment of \<^verbatim>\<open>tmpdir\<close> and throws first in that case.
  A constructor that throws yields no object.
\<close>

definition Config :: "path_module \<Rightarrow> 're \<Rightarrow> host \<Rightarrow> js_error + 're config" where
  "Config path regLinuxOutput h =
     (let c = configuration h ''mcglsl'' in
      case workspace_name h of
        None \<Rightarrow> Inl TypeError
      | Some name \<Rightarrow>
          (case workspace_rootPath h of
             None \<Rightarrow> Inl TypeError
           | Some rootPath \<Rightarrow>
               Inr \<lparr>minecraftPath = c ''minecraftPath'',
                    glslangPath = c ''glslangValidatorPath'',
                    workDir =
                      (if basename path rootPath = ''shaders'' then rootPath
                       else join path [rootPath, ''shaders'']),
                    tmpdir = join path [os_tmpdir h, name, ''shaders''],
                    isWin = (os_platform h = ''win32''),
                    outputMatch = regLinuxOutput\<rparr>))"

subsection \<open>\<^verbatim>\<open>onChange\<close>\<close>

text \<open>
  \<^verbatim>\<open>Object.assign(target, source)\<close> copies the own enumerable properties of the source onto
  the target, one after the other, in the order the source got them: here the order of
  the assignments in the constructor.
\<close>

datatype config_key =
  Key_glslangPath | Key_minecraftPath | Key_isWin | Key_tmpdir | Key_outputMatch | Key_workDir

fun assign_key :: "'re config \<Rightarrow> 're config \<Rightarrow> config_key \<Rightarrow> 're config" where
  "assign_key target source Key_glslangPath = target\<lparr>glslangPath := glslangPath source\<rparr>"
| "assign_key target source Key_minecraftPath = target\<lparr>minecraftPath := minecraftPath source\<rparr>"
| "assign_key target source Key_isWin = target\<lparr>isWin := isWin source\<rparr>"
| "assign_key target source Key_tmpdir = target\<lparr>tmpdir := tmpdir source\<rparr>"
| "assign_key target source Key_outputMatch = target\<lparr>outputMatch := outputMatch source\<rparr>"
| "assign_key target source Key_workDir = target\<lparr>workDir := workDir source\<rparr>"

definition own_keys :: "config_key list" where
  "own_keys =
     [Key_glslangPath, Key_minecraftPath, Key_isWin, Key_tmpdir, Key_outputMatch, Key_workDir]"

text \<open>
  The target after the properties \<open>keys\<close> have been copied, in that order. The target is
  the one object \<open>this\<close>, overwritten in place: after a prefix of \<open>own_keys\<close> it holds
  fields of the source and fields of its own.
\<close>

definition assign_keys :: "'re config \<Rightarrow> 're config \<Rightarrow> config_key list \<Rightarrow> 're config" where
  "assign_keys target source keys = foldl (\<lambda>t k. assign_key t source k) target keys"

definition Object_assign :: "'re config \<Rightarrow> 're config \<Rightarrow> 're config" where
  "Object_assign target source = assign_keys target source own_keys"



text \<open>A \<^verbatim>\<open>vscode.ConfigurationChangeEvent\<close>: its one method.\<close>

record configuration_change_event =
  affectsConfiguration :: "string \<Rightarrow> bool"

text \<open>
  \<^verbatim>\<open>onChange(e) { if (e.affectsConfiguration('mcglsl')) { Object.assign(this, new Config()) } }\<close>.
  The argument \<^verbatim>\<open>new Config()\<close> is evaluated before \<^verbatim>\<open>Object.assign\<close> is entered: when the
  constructor throws, \<open>this\<close> is as it was. The result is \<open>this\<close> after the call and the
  error that left the call, if any.
\<close>

definition onChange ::
  "path_module \<Rightarrow> 're \<Rightarrow> host \<Rightarrow> configuration_change_event \<Rightarrow> 're config
     \<Rightarrow> 're config \<times> js_error option" where
  "onChange path regLinuxOutput h e this =
     (if affectsConfiguration e ''mcglsl'' then
        (case Config path regLinuxOutput h of
           Inl err \<Rightarrow> (this, Some err)
         | Inr fresh \<Rightarrow> (Object_assign this fresh, None))
      else (this, None))"

subsection \<open>What a preprocessing pass sees\<close>








section \<open>Concrete inputs\<close>

text \<open>A list of two candidates, and two items that ask for one of them.\<close>

definition sample_completions :: "completion_item list" where
  "sample_completions =
     [\<lparr>label = ''gl_Position'', kind = Some 6, detail = Some ''vec4'', data = Some 1\<rparr>,
      \<lparr>label = ''texture2D'', kind = Some 3, detail = None, data = Some 2\<rparr>]"

definition frag_doc :: document where
  "frag_doc = \<lparr>uri = ''file:///proj/shaders/final.fsh'', languageId = ''glsl'', version = 3,
               content = ''void main() {}''\<rparr>"

definition vert_doc :: document where
  "vert_doc = \<lparr>uri = ''file:///proj/shaders/final.vsh'', languageId = ''glsl'', version = 1,
               content = []\<rparr>"

text \<open>A server with no document open, and one with two open and one call made.\<close>

definition idle_server :: "string server" where
  "idle_server = \<lparr>documents = \<lparr>all_documents = []\<rparr>, invoked = []\<rparr>"

definition busy_server :: "string server" where
  "busy_server = \<lparr>documents = \<lparr>all_documents = [frag_doc, vert_doc]\<rparr>,
                  invoked = [Preprocess frag_doc None]\<rparr>"

text \<open>Collaborators that return from every call, and ones whose \<^verbatim>\<open>conf.onChange\<close> throws.\<close>

definition never_raises :: "string call \<Rightarrow> js_error option" where
  "never_raises c = None"

definition conf_raises :: "string call \<Rightarrow> js_error option" where
  "conf_raises c = (case c of Conf_onChange s \<Rightarrow> Some TypeError | Preprocess d x \<Rightarrow> None)"

text \<open>
  Hosts: a folder \<^verbatim>\<open>/proj\<close> opened as workspace \<^verbatim>\<open>pack\<close>; the same on Windows' platform
  string; a folder \<^verbatim>\<open>/proj/shaders\<close>; and a window with no folder open.
\<close>

definition mcglsl_settings :: "string \<Rightarrow> string \<Rightarrow> string option" where
  "mcglsl_settings section key =
     (if section = ''mcglsl'' \<and> key = ''glslangValidatorPath'' then Some ''glslangValidator''
      else if section = ''mcglsl'' \<and> key = ''minecraftPath'' then Some ''/home/me/.minecraft''
      else None)"

definition linux_host :: host where
  "linux_host = \<lparr>configuration = mcglsl_settings, os_tmpdir = ''/tmp'', os_platform = ''linux'',
                  workspace_name = Some ''pack'', workspace_rootPath = Some ''/proj''\<rparr>"

definition windows_host :: host where
  "windows_host = linux_host\<lparr>os_platform := ''win32''\<rparr>"

definition shaders_host :: host where
  "shaders_host = linux_host\<lparr>workspace_name := Some ''shaders'',
                              workspace_rootPath := Some ''/proj/shaders''\<rparr>"





definition editor_change :: configuration_change_event where
  "editor_change = \<lparr>affectsConfiguration = (\<lambda>section. section = ''editor'')\<rparr>"

text \<open>
  The configurations the constructor builds on \<open>linux_host\<close>, on \<open>shaders_host\<close> and on
  \<open>other_host\<close>.
\<close>

definition linux_config :: "string config" where
  "linux_config =
     \<lparr>minecraftPath = Some ''/home/me/.minecraft'', glslangPath = Some ''glslangValidator'',
      workDir = ''/proj/shaders'', tmpdir = ''/tmp/pack/shaders'', isWin = False,
      outputMatch = ''regLinuxOutput''\<rparr>"


definition shaders_config :: "string config" where
  "shaders_config =
     \<lparr>minecraftPath = Some ''/home/me/.minecraft'', glslangPath = Some ''glslangValidator'',
      workDir = ''/proj/shaders'', tmpdir = ''/tmp/shaders/shaders'', isWin = False,
      outputMatch = ''regLinuxOutput''\<rparr>"


section \<open>Properties of the server\<close>

subsection \<open>Auxiliary facts\<close>

lemma run_calls_no_raise:
  "\<forall>c \<in> set cs. raises c = None \<Longrightarrow> run_calls raises cs = (cs, None)"
  by (induction cs) auto

lemma preprocessed_forEach:
  "map preprocessed (forEach xs :: 's call list) = map Some xs"
proof -
  have "map preprocessed (map (\<lambda>(i, d). Preprocess d (Some (i, ys))) (enumerate n xs) :: 's call list)
        = map Some xs" for n ys
    by (induction xs arbitrary: n) auto
  then show ?thesis by (simp add: forEach_def)
qed

subsection \<open>Resolving a completion\<close>

text \<open>
  Claim C1, as the code has it. For an item whose \<open>data\<close> is an identifier \<open>i\<close> from 1 to
  the length of the list, the handler returns the candidate at position \<open>i - 1\<close>, and it
  returns the same in every state of the server. For the identifiers 0 and length + 1
  the read \<^verbatim>\<open>completions[item.data - 1]\<close> leaves the array, and the handler returns
  \<^verbatim>\<open>undefined\<close> as an ordinary result: it raises nothing.
\<close>

theorem resolve_by_id:
  assumes "data item = Some i"
  shows "(1 \<le> i \<and> i \<le> int (length completions) \<longrightarrow>
            onCompletionResolve completions srv item = Inr (Defined (completions ! nat (i - 1)))
          \<and> onCompletionResolve completions srv' item = onCompletionResolve completions srv item)
       \<and> (i = 0 \<or> i = int (length completions) + 1 \<longrightarrow>
            onCompletionResolve completions srv item = Inr Undefined
          \<and> \<not> in_bounds completions (resolve_index item))"
  using assms by (auto simp add: onCompletionResolve_def resolve_index_def)

theorem resolve_by_id_witness:
  "data (item_with_id 2) = Some 2 \<and> (1::int) \<le> 2 \<and> 2 \<le> int (length sample_completions)
   \<and> onCompletionResolve sample_completions idle_server (item_with_id 2)
       = Inr (Defined \<lparr>label = ''texture2D'', kind = Some 3, detail = None, data = Some 2\<rparr>)
   \<and> data (item_with_id 0) = Some 0
   \<and> onCompletionResolve sample_completions idle_server (item_with_id 0) = Inr Undefined"
proof -
  have d2: "data (item_with_id 2) = Some 2" and d0: "data (item_with_id 0) = Some 0"
    by (simp_all add: item_with_id_def)
  have len: "length sample_completions = 2" by (simp add: sample_completions_def)
  from resolve_by_id [OF d2, of sample_completions idle_server idle_server]
       resolve_by_id [OF d0, of sample_completions idle_server idle_server]
  show ?thesis using d2 d0 len by (simp add: sample_completions_def)
qed

text \<open>
  Claim C1, as it is stated, asks for a not-found failure at the identifiers 0 and
  length + 1 in place of an out-of-bounds read. On the list of two candidates both
  identifiers make the handler read outside the list and return \<^verbatim>\<open>undefined\<close> normally.
\<close>

theorem resolve_out_of_bounds_counterexample:
  "onCompletionResolve sample_completions idle_server (item_with_id 0) = Inr Undefined
   \<and> \<not> in_bounds sample_completions (resolve_index (item_with_id 0))
   \<and> onCompletionResolve sample_completions idle_server (item_with_id 3) = Inr Undefined
   \<and> \<not> in_bounds sample_completions (resolve_index (item_with_id 3))"
  by (simp add: onCompletionResolve_def resolve_index_def item_with_id_def sample_completions_def)

text \<open>
  Claim C10: the result of a resolve request is a function of the \<open>data\<close> of the item.
  Two items with equal \<open>data\<close> get the same result, whatever their other fields, and
  whatever the two states of the server: the open documents and the calls made by
  earlier requests.
\<close>

theorem resolve_depends_on_data_only:
  "data a = data b \<Longrightarrow>
     onCompletionResolve completions srv1 a = onCompletionResolve completions srv2 b"
  by (simp add: onCompletionResolve_def resolve_index_def)

theorem resolve_depends_on_data_only_witness:
  "data \<lparr>label = ''x'', kind = Some 1, detail = None, data = Some 1\<rparr>
     = data \<lparr>label = ''y'', kind = None, detail = Some ''other'', data = Some 1\<rparr>
   \<and> onCompletionResolve sample_completions idle_server
         \<lparr>label = ''x'', kind = Some 1, detail = None, data = Some 1\<rparr>
     = onCompletionResolve sample_completions busy_server
         \<lparr>label = ''y'', kind = None, detail = Some ''other'', data = Some 1\<rparr>"
proof -
  have eq: "data \<lparr>label = ''x'', kind = Some 1, detail = None, data = Some 1\<rparr>
     = data \<lparr>label = ''y'', kind = None, detail = Some ''other'', data = Some 1\<rparr>"
    by simp
  from resolve_depends_on_data_only [OF eq, of sample_completions idle_server busy_server] eq
  show ?thesis by blast
qed

subsection \<open>Notifications\<close>

text \<open>
  Claim C8: a content change makes exactly one call of \<^verbatim>\<open>preprocess\<close>, on the changed
  document: the calls made grow by this one call, whether or not it throws.
\<close>

theorem change_preprocesses_once:
  "fst (onDidChangeContent raises change srv)
     = srv\<lparr>invoked := invoked srv @ [Preprocess (changed_document change) None]\<rparr>"
  by (simp add: onDidChangeContent_def perform_def split: option.split)

theorem change_preprocesses_once_witness:
  "invoked (fst (onDidChangeContent conf_raises \<lparr>changed_document = vert_doc\<rparr> busy_server))
     = [Preprocess frag_doc None, Preprocess vert_doc None]"
  using change_preprocesses_once [of conf_raises "\<lparr>changed_document = vert_doc\<rparr>" busy_server]
  by (simp add: busy_server_def)

text \<open>
  Claim C7: on a configuration change the first call the handler makes is
  \<^verbatim>\<open>conf.onChange\<close> on the new settings, in every case. When that call and the calls of
  \<^verbatim>\<open>preprocess\<close> return, the handler then calls \<^verbatim>\<open>preprocess\<close> once on each open document, in
  the order of \<^verbatim>\<open>documents.all()\<close>, and nothing else.
\<close>

theorem configuration_change_calls:
  "take (Suc (length (invoked srv))) (invoked (fst (onDidChangeConfiguration raises change srv)))
     = invoked srv @ [Conf_onChange (settings change)]
   \<and> (raises (Conf_onChange (settings change)) = None \<longrightarrow>
      (\<forall>c \<in> set (forEach (all_documents (documents srv))). raises c = None) \<longrightarrow>
        onDidChangeConfiguration raises change srv
          = (srv\<lparr>invoked := invoked srv @
                Conf_onChange (settings change) # forEach (all_documents (documents srv))\<rparr>, None)
        \<and> map preprocessed (forEach (all_documents (documents srv)) :: 's call list)
          = map Some (all_documents (documents srv)))"
proof (intro conjI impI)
  show "take (Suc (length (invoked srv))) (invoked (fst (onDidChangeConfiguration raises change srv)))
     = invoked srv @ [Conf_onChange (settings change)]"
    by (simp add: onDidChangeConfiguration_def perform_def split: option.split prod.split)
next
  assume "raises (Conf_onChange (settings change)) = None"
    and "\<forall>c \<in> set (forEach (all_documents (documents srv))). raises c = None"
  then have "run_calls raises (Conf_onChange (settings change) # forEach (all_documents (documents srv)))
      = (Conf_onChange (settings change) # forEach (all_documents (documents srv)), None)"
    by (intro run_calls_no_raise) simp
  then show "onDidChangeConfiguration raises change srv
          = (srv\<lparr>invoked := invoked srv @
                Conf_onChange (settings change) # forEach (all_documents (documents srv))\<rparr>, None)"
    by (simp add: onDidChangeConfiguration_def perform_def)
next
  show "map preprocessed (forEach (all_documents (documents srv)) :: 's call list)
          = map Some (all_documents (documents srv))"
    by (rule preprocessed_forEach)
qed

theorem configuration_change_calls_witness:
  "never_raises (Conf_onChange ''{}'') = None
   \<and> list_all (\<lambda>c. never_raises c = None) (forEach [frag_doc, vert_doc])
   \<and> onDidChangeConfiguration never_raises \<lparr>settings = ''{}''\<rparr> busy_server
       = (busy_server\<lparr>invoked :=
            [Preprocess frag_doc None, Conf_onChange ''{}'',
             Preprocess frag_doc (Some (0, [frag_doc, vert_doc])),
             Preprocess vert_doc (Some (1, [frag_doc, vert_doc]))]\<rparr>, None)"
proof -
  have h1: "never_raises (Conf_onChange (settings \<lparr>settings = ''{}''\<rparr>)) = None"
    by (simp add: never_raises_def)
  have h2: "\<forall>c \<in> set (forEach (all_documents (documents busy_server))). never_raises c = None"
    by (simp add: never_raises_def)
  have fe: "forEach [frag_doc, vert_doc]
      = ([Preprocess frag_doc (Some (0, [frag_doc, vert_doc])),
         Preprocess vert_doc (Some (1, [frag_doc, vert_doc]))] :: string call list)"
    by (simp add: forEach_def)
  from configuration_change_calls [of busy_server never_raises "\<lparr>settings = ''{}''\<rparr>"] h1 h2
  have "onDidChangeConfiguration never_raises \<lparr>settings = ''{}''\<rparr> busy_server
          = (busy_server\<lparr>invoked := invoked busy_server @
                Conf_onChange (settings \<lparr>settings = ''{}''\<rparr>) # forEach (all_documents (documents busy_server))\<rparr>, None)"
    by blast
  then show ?thesis
    by (simp add: fe busy_server_def never_raises_def)
qed

subsection \<open>Initialisation\<close>

text \<open>
  Claim C9: for every state of the server and every parameter, the result of
  \<^verbatim>\<open>initialize\<close> declares full-document synchronisation and a completion provider with
  resolve support.
\<close>

theorem initialize_capabilities:
  "onInitialize srv params
     = \<lparr>capabilities =
          \<lparr>textDocumentSync = Some Full,
           completionProvider = Some \<lparr>resolveProvider = Some True\<rparr>\<rparr>\<rparr>"
  by (simp add: onInitialize_def syncKind_def)

theorem initialize_capabilities_witness:
  "capabilities (onInitialize busy_server ''{}'')
     = \<lparr>textDocumentSync = Some Full,
        completionProvider = Some \<lparr>resolveProvider = Some True\<rparr>\<rparr>"
  using initialize_capabilities [of busy_server "''{}''"] by simp


section \<open>Properties of the configuration\<close>

subsection \<open>Auxiliary facts\<close>




lemma posix_basename_proj: "posix_basename ''/proj'' = ''proj''"
  by (simp add: posix_basename_def)

lemma posix_basename_shaders: "posix_basename ''/proj/shaders'' = ''shaders''"
  by (simp add: posix_basename_def)

lemma posix_join_proj: "posix_join [''/proj'', ''shaders''] = ''/proj/shaders''"
  by (simp add: posix_join_def posix_normalize_def)

lemma posix_join_tmp: "posix_join [''/tmp'', ''pack'', ''shaders''] = ''/tmp/pack/shaders''"
  by (simp add: posix_join_def posix_normalize_def)

lemma posix_join_tmp_shaders: "posix_join [''/tmp'', ''shaders'', ''shaders''] = ''/tmp/shaders/shaders''"
  by (simp add: posix_join_def posix_normalize_def)

lemma split_path_nonempty [simp]: "split_path p \<noteq> []"
  by (induction p) (auto split: list.split)

lemma split_path_plain_append:
  "CHR ''/'' \<notin> set s \<Longrightarrow> split_path (s @ CHR ''/'' # p) = s # split_path p"
  by (induction s) (auto split: list.split)

lemma split_path_plain: "CHR ''/'' \<notin> set s \<Longrightarrow> split_path s = [s]"
  by (induction s) (auto split: list.split)

lemma split_join_segments:
  "segs \<noteq> [] \<Longrightarrow> \<forall>s \<in> set segs. CHR ''/'' \<notin> set s \<Longrightarrow> split_path (join_segments segs) = segs"
proof (induction segs rule: join_segments.induct)
  case 1
  then show ?case by simp
next
  case (2 s)
  then show ?case by (simp add: split_path_plain)
next
  case (3 s t ss)
  then show ?case by (simp add: split_path_plain_append)
qed

lemma normalize_segments_plain:
  "\<forall>s \<in> set segs. plain_segment s \<Longrightarrow> normalize_segments up res segs = rev res @ segs"
  by (induction segs arbitrary: res) (auto simp add: plain_segment_def)

lemma join_segments_snoc:
  "segs \<noteq> [] \<Longrightarrow> join_segments (segs @ [s]) = join_segments segs @ CHR ''/'' # s"
  by (induction segs rule: join_segments.induct) auto

lemma join_segments_nonempty:
  "segs \<noteq> [] \<Longrightarrow> \<forall>s \<in> set segs. s \<noteq> [] \<Longrightarrow> join_segments segs \<noteq> []"
  by (induction segs rule: join_segments.induct) auto

lemma last_join_segments:
  "segs \<noteq> [] \<Longrightarrow> \<forall>s \<in> set segs. s \<noteq> [] \<Longrightarrow> last (join_segments segs) = last (last segs)"
  by (induction segs rule: join_segments.induct) (auto simp add: join_segments_nonempty)

lemma posix_normalize_absolute:
  assumes "segs \<noteq> []" and "\<forall>s \<in> set segs. plain_segment s"
  shows "posix_normalize (CHR ''/'' # join_segments segs) = CHR ''/'' # join_segments segs"
proof -
  have noslash: "\<forall>s \<in> set segs. CHR ''/'' \<notin> set s" and nonempty: "\<forall>s \<in> set segs. s \<noteq> []"
    using assms(2) by (auto simp add: plain_segment_def)
  have body: "join_segments segs \<noteq> []"
    using assms(1) nonempty by (rule join_segments_nonempty)
  have "last segs \<in> set segs" using assms(1) by simp
  then have "CHR ''/'' \<notin> set (last segs)" "last segs \<noteq> []"
    using noslash nonempty by auto
  then have "last (last segs) \<noteq> CHR ''/''"
    by (metis last_in_set)
  then have trail: "last (join_segments segs) \<noteq> CHR ''/''"
    using last_join_segments [OF assms(1) nonempty] by simp
  have split: "split_path (join_segments segs) = segs"
    using assms(1) noslash by (rule split_join_segments)
  have norm: "normalize_segments False [] segs = segs"
    using normalize_segments_plain [OF assms(2), of False "[]"] by simp
  show ?thesis
    using body trail by (simp add: posix_normalize_def Let_def split norm)
qed

lemma join_segments_Cons:
  "join_segments (x # rest) = x @ concat (map ((#) CHR ''/'') rest)"
  by (induction rest arbitrary: x) auto

lemma join_segments_append:
  "segs \<noteq> [] \<Longrightarrow>
     join_segments (segs @ rest) = join_segments segs @ concat (map ((#) CHR ''/'') rest)"
  by (induction segs rule: join_segments.induct) (auto simp add: join_segments_Cons)

lemma posix_join_appends:
  assumes "segs \<noteq> []" and "\<forall>s \<in> set segs. plain_segment s"
    and "\<forall>s \<in> set rest. plain_segment s"
  shows "posix_join ((CHR ''/'' # join_segments segs) # rest)
           = (CHR ''/'' # join_segments segs) @ concat (map ((#) CHR ''/'') rest)"
proof -
  have "filter (\<lambda>arg. arg \<noteq> []) rest = rest"
    using assms(3) by (auto simp add: plain_segment_def filter_id_conv)
  then have "posix_join ((CHR ''/'' # join_segments segs) # rest)
      = posix_normalize (CHR ''/'' # join_segments (segs @ rest))"
    using assms(1) by (simp add: posix_join_def join_segments_Cons join_segments_append)
  also have "\<dots> = CHR ''/'' # join_segments (segs @ rest)"
    using assms by (intro posix_normalize_absolute) auto
  finally show ?thesis
    using assms(1) by (simp add: join_segments_append)
qed

lemma posix_basename_last:
  assumes "segs \<noteq> []" and "\<forall>s \<in> set segs. plain_segment s"
  shows "posix_basename (CHR ''/'' # join_segments segs) = last segs"
  using assms
proof (induction segs rule: rev_induct)
  case Nil
  then show ?case by simp
next
  case (snoc s segs)
  then have s: "s \<noteq> []" "CHR ''/'' \<notin> set s"
    by (auto simp add: plain_segment_def)
  then have hd: "hd (rev s) \<noteq> CHR ''/''"
    by (metis hd_rev last_in_set)
  have dw: "dropWhile (\<lambda>c. c = CHR ''/'') (rev s @ r) = rev s @ r" for r
    using s(1) hd by (cases "rev s") auto
  have tw: "takeWhile (\<lambda>c. c \<noteq> CHR ''/'') (rev s @ CHR ''/'' # r) = rev s" for r
    using s(2) by (subst takeWhile_append2) auto
  show ?case
  proof (cases "segs = []")
    case True
    then show ?thesis by (simp add: posix_basename_def dw tw)
  next
    case False
    then show ?thesis by (simp add: posix_basename_def join_segments_snoc dw tw)
  qed
qed

lemma Config_linux_host: "Config posix ''regLinuxOutput'' linux_host = Inr linux_config"
  by (simp add: Config_def Let_def linux_host_def posix_def mcglsl_settings_def linux_config_def
      posix_basename_proj posix_join_proj posix_join_tmp)

lemma Config_windows_host:
  "Config posix ''regLinuxOutput'' windows_host = Inr (linux_config\<lparr>isWin := True\<rparr>)"
  by (simp add: Config_def Let_def windows_host_def linux_host_def posix_def mcglsl_settings_def linux_config_def
      posix_basename_proj posix_join_proj posix_join_tmp)

lemma Config_shaders_host: "Config posix ''regLinuxOutput'' shaders_host = Inr shaders_config"
  by (simp add: Config_def Let_def shaders_host_def linux_host_def posix_def mcglsl_settings_def shaders_config_def
      posix_basename_shaders posix_join_tmp_shaders)







subsection \<open>The derived directories\<close>

text \<open>
  Claim C2: with a folder open, the constructor returns a configuration whose working
  directory is the project root itself when \<^verbatim>\<open>path.basename\<close> of the root is \<^verbatim>\<open>shaders\<close>,
  and \<^verbatim>\<open>path.join\<close> of the root and the segment \<^verbatim>\<open>shaders\<close> otherwise.
\<close>

theorem workDir_of_root:
  assumes "workspace_name h = Some name" and "workspace_rootPath h = Some rootPath"
  shows "\<exists>c. Config path re h = Inr c
           \<and> workDir c = (if basename path rootPath = ''shaders'' then rootPath
                          else join path [rootPath, ''shaders''])"
  using assms by (simp add: Config_def Let_def)

theorem workDir_of_root_witness:
  "workspace_name linux_host = Some ''pack'' \<and> workspace_rootPath linux_host = Some ''/proj''
   \<and> basename posix ''/proj'' = ''proj''
   \<and> map_sum id workDir (Config posix ''regLinuxOutput'' linux_host) = Inr ''/proj/shaders''
   \<and> workspace_name shaders_host = Some ''shaders''
   \<and> workspace_rootPath shaders_host = Some ''/proj/shaders''
   \<and> basename posix ''/proj/shaders'' = ''shaders''
   \<and> map_sum id workDir (Config posix ''regLinuxOutput'' shaders_host) = Inr ''/proj/shaders''"
proof -
  have n1: "workspace_name linux_host = Some ''pack''"
    and r1: "workspace_rootPath linux_host = Some ''/proj''"
    by (simp_all add: linux_host_def)
  have n2: "workspace_name shaders_host = Some ''shaders''"
    and r2: "workspace_rootPath shaders_host = Some ''/proj/shaders''"
    by (simp_all add: shaders_host_def linux_host_def)
  have b1: "basename posix ''/proj'' = ''proj''"
    and b2: "basename posix ''/proj/shaders'' = ''shaders''"
    and j1: "join posix [''/proj'', ''shaders''] = ''/proj/shaders''"
    by (simp_all add: posix_def posix_basename_proj posix_basename_shaders posix_join_proj)
  from workDir_of_root [OF n1 r1, of posix "''regLinuxOutput''"]
  have w1: "map_sum id workDir (Config posix ''regLinuxOutput'' linux_host) = Inr ''/proj/shaders''"
    by (auto simp add: b1 j1)
  from workDir_of_root [OF n2 r2, of posix "''regLinuxOutput''"]
  have w2: "map_sum id workDir (Config posix ''regLinuxOutput'' shaders_host) = Inr ''/proj/shaders''"
    by (auto simp add: b2)
  from n1 r1 n2 r2 b1 b2 w1 w2 show ?thesis by blast
qed

text \<open>
  On \<^verbatim>\<open>path.posix\<close>, for a root that is an absolute normal path, the base name is the last
  segment and the join is the concatenation: the working directory is the root when
  its last segment is \<^verbatim>\<open>shaders\<close>, and the root followed by \<^verbatim>\<open>/shaders\<close> otherwise.
\<close>

lemma workDir_posix:
  assumes "workspace_name h = Some name"
    and "workspace_rootPath h = Some (CHR ''/'' # join_segments segs)"
    and "segs \<noteq> []" and "\<forall>s \<in> set segs. plain_segment s"
  shows "\<exists>c. Config posix re h = Inr c
           \<and> workDir c = (if last segs = ''shaders'' then CHR ''/'' # join_segments segs
                          else (CHR ''/'' # join_segments segs) @ ''/shaders'')"
proof -
  have "plain_segment ''shaders''" by (simp add: plain_segment_def)
  then have "posix_join [CHR ''/'' # join_segments segs, ''shaders'']
      = (CHR ''/'' # join_segments segs) @ ''/shaders''"
    using posix_join_appends [OF assms(3,4), of "[''shaders'']"] by simp
  moreover have "posix_basename (CHR ''/'' # join_segments segs) = last segs"
    using assms(3,4) by (rule posix_basename_last)
  ultimately show ?thesis
    using assms(1,2) by (simp add: Config_def Let_def posix_def)
qed

text \<open>
  Claim C6: with a folder open, the constructor returns a configuration whose temp staging
  directory is \<^verbatim>\<open>path.join\<close> of the temp root of the system, the name of the workspace and
  the segment \<^verbatim>\<open>shaders\<close>.
\<close>

theorem tmpdir_of_workspace:
  assumes "workspace_name h = Some name" and "workspace_rootPath h = Some rootPath"
  shows "\<exists>c. Config path re h = Inr c \<and> tmpdir c = join path [os_tmpdir h, name, ''shaders'']"
  using assms by (simp add: Config_def Let_def)

theorem tmpdir_of_workspace_witness:
  "workspace_name linux_host = Some ''pack'' \<and> workspace_rootPath linux_host = Some ''/proj''
   \<and> os_tmpdir linux_host = ''/tmp''
   \<and> map_sum id tmpdir (Config posix ''regLinuxOutput'' linux_host) = Inr ''/tmp/pack/shaders''"
proof -
  have n1: "workspace_name linux_host = Some ''pack''"
    and r1: "workspace_rootPath linux_host = Some ''/proj''"
    and t1: "os_tmpdir linux_host = ''/tmp''"
    by (simp_all add: linux_host_def)
  have j1: "join posix [''/tmp'', ''pack'', ''shaders''] = ''/tmp/pack/shaders''"
    by (simp add: posix_def posix_join_tmp)
  from tmpdir_of_workspace [OF n1 r1, of posix "''regLinuxOutput''"]
  have "map_sum id tmpdir (Config posix ''regLinuxOutput'' linux_host) = Inr ''/tmp/pack/shaders''"
    by (auto simp add: t1 j1)
  with n1 r1 t1 show ?thesis by blast
qed

text \<open>
  On \<^verbatim>\<open>path.posix\<close>, for a temp root that is an absolute normal path and a workspace name
  that is a single segment, the staging directory is the temp root, the name and
  \<^verbatim>\<open>shaders\<close>, separated by \<^verbatim>\<open>/\<close>.
\<close>

lemma tmpdir_posix:
  assumes "workspace_name h = Some name" and "workspace_rootPath h = Some rootPath"
    and "os_tmpdir h = CHR ''/'' # join_segments segs"
    and "segs \<noteq> []" and "\<forall>s \<in> set segs. plain_segment s" and "plain_segment name"
  shows "\<exists>c. Config posix re h = Inr c
           \<and> tmpdir c = os_tmpdir h @ ''/'' @ name @ ''/shaders''"
proof -
  have "plain_segment ''shaders''" by (simp add: plain_segment_def)
  then have "posix_join [CHR ''/'' # join_segments segs, name, ''shaders'']
      = (CHR ''/'' # join_segments segs) @ ''/'' @ name @ ''/shaders''"
    using posix_join_appends [OF assms(4,5), of "[name, ''shaders'']"] assms(6) by simp
  then show ?thesis
    using assms(1,2,3) by (simp add: Config_def Let_def posix_def)
qed

subsection \<open>The output pattern\<close>

text \<open>
  Claim C3, as the code has it. Every configuration the constructor returns holds the one
  pattern \<^verbatim>\<open>regLinuxOutput\<close>, on every platform. The flag \<open>isWin\<close> is computed from the
  platform and stored beside it; the pattern does not depend on it.
\<close>

theorem outputMatch_fixed:
  assumes "Config path regLinuxOutput h = Inr c"
  shows "outputMatch c = regLinuxOutput \<and> isWin c = (os_platform h = ''win32'')"
  using assms by (auto simp add: Config_def Let_def split: option.splits)

theorem outputMatch_fixed_witness:
  "Config posix ''regLinuxOutput'' windows_host = Inr (linux_config\<lparr>isWin := True\<rparr>)
   \<and> outputMatch (linux_config\<lparr>isWin := True\<rparr>) = ''regLinuxOutput''
   \<and> isWin (linux_config\<lparr>isWin := True\<rparr>) = (os_platform windows_host = ''win32'')"
  using outputMatch_fixed [OF Config_windows_host] Config_windows_host by blast

text \<open>
  Claim C3, as it is stated, has the pattern selected by the platform flag. Two hosts that
  differ in the platform alone get configurations with different flags and the same
  pattern. (The path functions enter \<open>tmpdir\<close> and \<open>workDir\<close> only; both hosts keep
  \<open>posix\<close>, so that nothing but the platform differs.)
\<close>

theorem outputMatch_same_on_windows_counterexample:
  "map_sum id isWin (Config posix ''regLinuxOutput'' windows_host) = Inr True
   \<and> map_sum id isWin (Config posix ''regLinuxOutput'' linux_host) = Inr False
   \<and> map_sum id outputMatch (Config posix ''regLinuxOutput'' windows_host)
     = map_sum id outputMatch (Config posix ''regLinuxOutput'' linux_host)"
  by (simp add: Config_windows_host Config_linux_host linux_config_def)

subsection \<open>Configuration changes\<close>

text \<open>
  Claim C5: a change event that does not affect the namespace \<^verbatim>\<open>mcglsl\<close> leaves the
  configuration as it was, every field of it, and raises nothing.
\<close>

theorem onChange_outside_namespace:
  "\<not> affectsConfiguration e ''mcglsl'' \<Longrightarrow> onChange path re h e this = (this, None)"
  by (simp add: onChange_def)

theorem onChange_outside_namespace_witness:
  "\<not> affectsConfiguration editor_change ''mcglsl''
   \<and> onChange posix ''regLinuxOutput'' shaders_host editor_change linux_config = (linux_config, None)"
proof -
  have h: "\<not> affectsConfiguration editor_change ''mcglsl''"
    by (simp add: editor_change_def)
  from onChange_outside_namespace [OF h, of posix "''regLinuxOutput''" shaders_host linux_config] h
  show ?thesis by blast
qed




end
